theory Spec2Isabelle
  imports Complex_Main
begin

section \<open>The 2D channel notebook with a time-dependent boundary flux\<close>

text \<open>
  The notebook configures a shallow-water solver of an external framework and contributes
  two functions of its own: \<^verbatim>\<open>timedep_flux\<close>, which evaluates a sinusoidal tidal
  flux, and the callback \<^verbatim>\<open>update_forcings\<close>, which stores that flux into the
  boundary constant \<^verbatim>\<open>tide_flux_const\<close> and plots the elevation at four instants.

  Numbers: Python's floats are modelled as real numbers, and \<^verbatim>\<open>sin\<close> and
  \<^verbatim>\<open>pi\<close> (imported from the framework) as the sine and the constant of real
  analysis. Rounding is outside the model throughout. The definitions come in two layers: the
  first computes in exact real arithmetic with \<^verbatim>\<open>in_flux\<close> a constant; the second
  adds the range of doubles, beyond which a product is infinite, and keeps
  \<^verbatim>\<open>in_flux\<close> as a global variable of the notebook's state.
\<close>

subsection \<open>Errors and arithmetic\<close>

text \<open>
  Two operations of \<^verbatim>\<open>timedep_flux\<close> can raise: dividing a float by zero raises
  \<^verbatim>\<open>ZeroDivisionError\<close>, and \<^verbatim>\<open>sin\<close> of an infinity raises
  \<^verbatim>\<open>ValueError\<close>.
\<close>

datatype py_error = ZeroDivisionError | ValueError

definition truediv :: "real \<Rightarrow> real \<Rightarrow> py_error + real" where
  "truediv x y = (if y = 0 then Inl ZeroDivisionError else Inr (x / y))"

subsection \<open>Configuration cells\<close>

text \<open>
  \<^verbatim>\<open>
  t_end = 2 * 3600
  options.timestep = 50.0
  left_bnd_id = 1
  right_bnd_id = 2
  in_flux = 1e3
  \<close>
\<close>

definition t_end :: int where
  "t_end = 2 * 3600"

definition timestep :: real where
  "timestep = 50"

definition left_bnd_id :: int where
  "left_bnd_id = 1"

definition right_bnd_id :: int where
  "right_bnd_id = 2"

definition in_flux :: real where
  "in_flux = 1000"

subsection \<open>The flux function\<close>

text \<open>
  \<^verbatim>\<open>
  def timedep_flux(simulation_time):
      tide_amp = -2e3
      tide_t = 12 * 3600.
      flux = tide_amp*sin(2 * pi * simulation_time / tide_t) + in_flux
      return flux
  \<close>
  The function reads the global \<^verbatim>\<open>in_flux\<close>, which the notebook assigns once, and
  touches nothing else: it takes no state and returns none.
\<close>

definition timedep_flux :: "real \<Rightarrow> py_error + real" where
  "timedep_flux simulation_time =
     (let tide_amp = - 2000;
          tide_t = 12 * 3600
      in case truediv (2 * pi * simulation_time) tide_t of
           Inl e \<Rightarrow> Inl e
         | Inr angle \<Rightarrow> Inr (tide_amp * sin angle + in_flux))"

text \<open>
  The formula in the words of the specification, with baseline, amplitude and period as
  parameters: \<^verbatim>\<open>baseline + amplitude * sin(2*pi*t / period)\<close>.
\<close>

definition evaluate :: "real \<Rightarrow> real \<Rightarrow> real \<Rightarrow> real \<Rightarrow> real" where
  "evaluate baseline amplitude period t = baseline + amplitude * sin (2 * pi * t / period)"

subsection \<open>Constant objects, the boundary dictionary and the notebook state\<close>

text \<open>
  The notebook creates three \<^verbatim>\<open>Constant\<close> objects, one at each of the calls
  \<^verbatim>\<open>Constant(0.0)\<close>, \<^verbatim>\<open>Constant(-in_flux)\<close> and
  \<^verbatim>\<open>Constant(timedep_flux(0))\<close>. They are mutable and shared by reference, so
  the model keeps a store from object identities to the value each object holds. The
  global name \<^verbatim>\<open>tide_flux_const\<close> is bound to the third object for the whole run.
\<close>

datatype const_obj = Right_elev | Right_flux | Tide_flux_const

type_synonym store = "const_obj \<rightharpoonup> real"

text \<open>\<^verbatim>\<open>Constant(v)\<close> creates the object of its call site; \<^verbatim>\<open>c.assign(v)\<close>
  overwrites the value the object holds.\<close>

definition Constant :: "const_obj \<Rightarrow> real \<Rightarrow> store \<Rightarrow> store" where
  "Constant c v h = h(c \<mapsto> v)"

definition assign :: "const_obj \<Rightarrow> real \<Rightarrow> store \<Rightarrow> store" where
  "assign c v h = h(c \<mapsto> v)"

text \<open>
  The state the callback works on: the store of constants, the dictionary
  \<^verbatim>\<open>swe_bnd\<close> from boundary identifiers to role records (each role naming a
  constant object), the solver's current solution \<^verbatim>\<open>solver_obj.fields.solution_2d\<close>
  as the pair that \<^verbatim>\<open>split()\<close> returns, and the sequence of fields handed to
  \<^verbatim>\<open>plot\<close> so far. Velocity and elevation fields belong to the framework and stay
  abstract.
\<close>

record ('u, 'e) state =
  constants :: store
  swe_bnd :: "int \<rightharpoonup> (string \<rightharpoonup> const_obj)"
  solution_2d :: "'u \<times> 'e"
  plotted :: "'e list"

text \<open>
  \<^verbatim>\<open>
  swe_bnd = {}
  swe_bnd[right_bnd_id] = {'elev': Constant(0.0),
                           'flux': Constant(-in_flux)}
  tide_flux_const = Constant(timedep_flux(0))
  swe_bnd[left_bnd_id] = {'flux': tide_flux_const}
  \<close>
  The state when the solver starts, for a solver whose initial solution is \<open>sol\<close>.
\<close>

definition notebook_setup :: "'u \<times> 'e \<Rightarrow> py_error + ('u, 'e) state" where
  "notebook_setup sol =
     (let bnd0 = Map.empty;
          h1 = Constant Right_elev 0 Map.empty;
          h2 = Constant Right_flux (- in_flux) h1;
          bnd1 = bnd0(right_bnd_id \<mapsto> [''elev'' \<mapsto> Right_elev, ''flux'' \<mapsto> Right_flux])
      in case timedep_flux 0 of
           Inl e \<Rightarrow> Inl e
         | Inr flux0 \<Rightarrow>
             let h3 = Constant Tide_flux_const flux0 h2;
                 bnd2 = bnd1(left_bnd_id \<mapsto> [''flux'' \<mapsto> Tide_flux_const])
             in Inr \<lparr>constants = h3, swe_bnd = bnd2, solution_2d = sol, plotted = []\<rparr>)"

text \<open>What the solver reads for a role of a boundary: the value of the constant that the
  role record refers to.\<close>

definition bnd_value :: "('u, 'e) state \<Rightarrow> int \<Rightarrow> string \<Rightarrow> real option" where
  "bnd_value s bid role =
     (case swe_bnd s bid of
        None \<Rightarrow> None
      | Some roles \<Rightarrow> (case roles role of None \<Rightarrow> None | Some c \<Rightarrow> constants s c))"

subsection \<open>The callback\<close>

text \<open>
  \<^verbatim>\<open>
  def update_forcings(t_new):
      uv, elev = solver_obj.fields.solution_2d.split()
      tide_flux_const.assign(timedep_flux(t_new))
      plot_time = [1000,2000,4000,7000]
      for i in plot_time:
          if t_new == i:
              plot(elev)
  \<close>
  The loop compares the float \<^verbatim>\<open>t_new\<close> with each integer by value; a call of
  \<^verbatim>\<open>plot\<close> is recorded by appending the plotted field to \<open>plotted\<close>.
\<close>

definition plot_time :: "int list" where
  "plot_time = [1000, 2000, 4000, 7000]"

fun plot_loop :: "real \<Rightarrow> 'e \<Rightarrow> int list \<Rightarrow> 'e list \<Rightarrow> 'e list" where
  "plot_loop t_new elev [] out = out"
| "plot_loop t_new elev (i # rest) out =
     plot_loop t_new elev rest (if t_new = real_of_int i then out @ [elev] else out)"

definition update_forcings :: "real \<Rightarrow> ('u, 'e) state \<Rightarrow> py_error + ('u, 'e) state" where
  "update_forcings t_new s =
     (let (uv, elev) = solution_2d s
      in case timedep_flux t_new of
           Inl e \<Rightarrow> Inl e
         | Inr flux \<Rightarrow>
             let s1 = s\<lparr>constants := assign Tide_flux_const flux (constants s)\<rparr>
             in Inr (s1\<lparr>plotted := plot_loop t_new elev plot_time (plotted s1)\<rparr>))"

text \<open>
  The solver's driver loop belongs to the framework. It calls the callback once per time
  step with the new simulation time, after computing a new solution; it reads the boundary
  constants and does not write them. A run is therefore a list of steps, each giving the time
  passed to the callback and the solution the solver holds at that moment.
\<close>

fun run :: "(real \<times> ('u \<times> 'e)) list \<Rightarrow> ('u, 'e) state \<Rightarrow> py_error + ('u, 'e) state" where
  "run [] s = Inr s"
| "run ((t_new, sol) # steps) s =
     (case update_forcings t_new (s\<lparr>solution_2d := sol\<rparr>) of
        Inl e \<Rightarrow> Inl e
      | Inr s' \<Rightarrow> run steps s')"

subsection \<open>The range of doubles and the global \<^verbatim>\<open>in_flux\<close>\<close>

text \<open>
  Two facts about the Python run are invisible in the definitions above, and the
  definitions of this subsection restore them.

  A double is finite or infinite. The product \<^verbatim>\<open>2 * pi * simulation_time\<close> rounds
  to an infinity once its magnitude reaches \<open>2 ^ 1024 - 2 ^ 970\<close>, half a unit in the last
  place above the largest finite double. Python raises nothing there, and dividing the
  infinity by \<^verbatim>\<open>tide_t\<close> leaves it infinite, but \<^verbatim>\<open>sin\<close> of an infinity raises
  \<^verbatim>\<open>ValueError\<close>. Finite values are still real numbers, without rounding.

  The name \<^verbatim>\<open>in_flux\<close> is a global variable, which \<^verbatim>\<open>timedep_flux\<close> reads at
  each call. The state of the notebook is therefore the value of that variable together with
  the state of the constants, the boundary dictionary, the solution and the plots.
\<close>

definition overflow_threshold :: real where
  "overflow_threshold = 2 ^ 1024 - 2 ^ 970"

datatype py_float = Finite real | Infinite

definition float_mul :: "real \<Rightarrow> real \<Rightarrow> py_float" where
  "float_mul x y = (if overflow_threshold \<le> \<bar>x * y\<bar> then Infinite else Finite (x * y))"

definition float_div :: "py_float \<Rightarrow> real \<Rightarrow> py_error + py_float" where
  "float_div x y =
     (if y = 0 then Inl ZeroDivisionError
      else Inr (case x of Finite a \<Rightarrow> Finite (a / y) | Infinite \<Rightarrow> Infinite))"

definition float_sin :: "py_float \<Rightarrow> py_error + real" where
  "float_sin x = (case x of Finite a \<Rightarrow> Inr (sin a) | Infinite \<Rightarrow> Inl ValueError)"

record ('u, 'e) notebook =
  in_flux_var :: real
  model :: "('u, 'e) state"

text \<open>\<^verbatim>\<open>timedep_flux\<close> once more, reading \<^verbatim>\<open>in_flux\<close> from the state it is called in
  and with the product a double.\<close>

definition timedep_flux_py :: "('u, 'e) notebook \<Rightarrow> real \<Rightarrow> py_error + real" where
  "timedep_flux_py g simulation_time =
     (let tide_amp = - 2000;
          tide_t = 12 * 3600
      in case float_div (float_mul (2 * pi) simulation_time) tide_t of
           Inl e \<Rightarrow> Inl e
         | Inr angle \<Rightarrow>
             (case float_sin angle of
                Inl e \<Rightarrow> Inl e
              | Inr sine \<Rightarrow> Inr (tide_amp * sine + in_flux_var g)))"

text \<open>The setup cells, the callback and a run of the solver over that state. The cell
  \<^verbatim>\<open>in_flux = 1e3\<close> sets the global; nothing else assigns it.\<close>

definition notebook_setup_py :: "'u \<times> 'e \<Rightarrow> py_error + ('u, 'e) notebook" where
  "notebook_setup_py sol =
     (let bnd0 = Map.empty;
          in_flux0 = 1000;
          h1 = Constant Right_elev 0 Map.empty;
          h2 = Constant Right_flux (- in_flux0) h1;
          bnd1 = bnd0(right_bnd_id \<mapsto> [''elev'' \<mapsto> Right_elev, ''flux'' \<mapsto> Right_flux]);
          g = \<lparr>in_flux_var = in_flux0,
               model = \<lparr>constants = h2, swe_bnd = bnd1, solution_2d = sol, plotted = []\<rparr>\<rparr>
      in case timedep_flux_py g 0 of
           Inl e \<Rightarrow> Inl e
         | Inr flux0 \<Rightarrow>
             let h3 = Constant Tide_flux_const flux0 h2;
                 bnd2 = bnd1(left_bnd_id \<mapsto> [''flux'' \<mapsto> Tide_flux_const])
             in Inr (g\<lparr>model := (model g)\<lparr>constants := h3, swe_bnd := bnd2\<rparr>\<rparr>))"

definition update_forcings_py ::
    "real \<Rightarrow> ('u, 'e) notebook \<Rightarrow> py_error + ('u, 'e) notebook" where
  "update_forcings_py t_new g =
     (let (uv, elev) = solution_2d (model g)
      in case timedep_flux_py g t_new of
           Inl e \<Rightarrow> Inl e
         | Inr flux \<Rightarrow>
             let m1 = (model g)\<lparr>constants := assign Tide_flux_const flux (constants (model g))\<rparr>
             in Inr (g\<lparr>model := m1\<lparr>plotted := plot_loop t_new elev plot_time (plotted m1)\<rparr>\<rparr>))"

fun run_py ::
    "(real \<times> ('u \<times> 'e)) list \<Rightarrow> ('u, 'e) notebook \<Rightarrow> py_error + ('u, 'e) notebook" where
  "run_py [] g = Inr g"
| "run_py ((t_new, sol) # steps) g =
     (case update_forcings_py t_new (g\<lparr>model := (model g)\<lparr>solution_2d := sol\<rparr>\<rparr>) of
        Inl e \<Rightarrow> Inl e
      | Inr g' \<Rightarrow> run_py steps g')"

text \<open>
  An observation for comparing calls of the callback: the outcome of
  \<^verbatim>\<open>update_forcings(t_new)\<close> as far as \<^verbatim>\<open>tide_flux_const\<close> shows it, the error
  raised or the value the constant holds afterwards.
\<close>

definition tide_flux_after :: "real \<Rightarrow> ('u, 'e) notebook \<Rightarrow> py_error + real option" where
  "tide_flux_after t_new g =
     (case update_forcings_py t_new g of
        Inl e \<Rightarrow> Inl e
      | Inr g' \<Rightarrow> Inr (constants (model g') Tide_flux_const))"

section \<open>The flux function\<close>

lemma timedep_flux_value:
  "timedep_flux t = Inr (- 2000 * sin (2 * pi * t / 43200) + 1000)"
  by (simp add: timedep_flux_def truediv_def in_flux_def)

text \<open>
  C1. For every simulation time \<open>t \<ge> 0\<close>, \<open>timedep_flux t\<close> returns
  \<open>baseline + amplitude * sin (2 * pi * t / period)\<close> with baseline \<open>in_flux = 1000\<close>,
  amplitude \<open>-2000\<close> and period \<open>43200\<close> seconds. The function is pure: it is a
  function of the time alone and returns only the flux.
\<close>

theorem timedep_flux_formula:
  assumes "0 \<le> t"
  shows "timedep_flux t = Inr (evaluate in_flux (- 2000) 43200 t) \<and> in_flux = 1000"
  by (simp add: timedep_flux_value evaluate_def in_flux_def)

theorem timedep_flux_formula_witness:
  "(0::real) \<le> 3600
   \<and> timedep_flux 3600 = Inr (evaluate in_flux (- 2000) 43200 3600) \<and> in_flux = 1000"
  using timedep_flux_formula [of 3600] by simp

subsection \<open>Quarter points and periodicity\<close>





section \<open>The setup cells and the callback\<close>

text \<open>
  The loop over \<^verbatim>\<open>plot_time\<close>, the callback and the setup cells in closed form.
\<close>

lemma plot_loop_plot_time:
  "plot_loop t e plot_time out = out @ (if t \<in> {1000, 2000, 4000, 7000} then [e] else [])"
  by (simp add: plot_time_def)

lemma update_forcings_result:
  "update_forcings t s =
     Inr (s\<lparr>constants := (constants s)(Tide_flux_const \<mapsto> - 2000 * sin (2 * pi * t / 43200) + 1000),
            plotted := plotted s @ (if t \<in> {1000, 2000, 4000, 7000} then [snd (solution_2d s)] else [])\<rparr>)"
  by (simp add: update_forcings_def timedep_flux_value assign_def plot_loop_plot_time split: prod.split)

lemma notebook_setup_result:
  "notebook_setup sol =
     Inr \<lparr>constants = [Right_elev \<mapsto> 0, Right_flux \<mapsto> - 1000, Tide_flux_const \<mapsto> 1000],
          swe_bnd = [right_bnd_id \<mapsto> [''elev'' \<mapsto> Right_elev, ''flux'' \<mapsto> Right_flux],
                     left_bnd_id \<mapsto> [''flux'' \<mapsto> Tide_flux_const]],
          solution_2d = sol, plotted = []\<rparr>"
  by (simp add: notebook_setup_def timedep_flux_value Constant_def in_flux_def)

text \<open>
  A run never fails, keeps the boundary dictionary and every constant other than
  \<^verbatim>\<open>tide_flux_const\<close>, and leaves in \<^verbatim>\<open>tide_flux_const\<close> the flux of the last time
  it was called with.
\<close>

lemma run_result:
  "\<exists>s'. run steps s = Inr s'
       \<and> swe_bnd s' = swe_bnd s
       \<and> (\<forall>c. c \<noteq> Tide_flux_const \<longrightarrow> constants s' c = constants s c)
       \<and> constants s' Tide_flux_const =
           (if steps = [] then constants s Tide_flux_const
            else Some (- 2000 * sin (2 * pi * fst (last steps) / 43200) + 1000))"
proof (induction steps arbitrary: s)
  case Nil
  show ?case by simp
next
  case (Cons step steps)
  obtain t_new sol where step: "step = (t_new, sol)"
    by (cases step)
  define s1 where "s1 =
    s\<lparr>solution_2d := sol,
      constants := (constants s)(Tide_flux_const \<mapsto> - 2000 * sin (2 * pi * t_new / 43200) + 1000),
      plotted := plotted s @ (if t_new \<in> {1000, 2000, 4000, 7000} then [snd sol] else [])\<rparr>"
  have upd: "update_forcings t_new (s\<lparr>solution_2d := sol\<rparr>) = Inr s1"
    by (simp add: update_forcings_result s1_def)
  from Cons.IH [of s1] obtain s' where
    r: "run steps s1 = Inr s'" and
    b: "swe_bnd s' = swe_bnd s1" and
    f: "\<forall>c. c \<noteq> Tide_flux_const \<longrightarrow> constants s' c = constants s1 c" and
    v: "constants s' Tide_flux_const =
          (if steps = [] then constants s1 Tide_flux_const
           else Some (- 2000 * sin (2 * pi * fst (last steps) / 43200) + 1000))"
    by blast
  have "run (step # steps) s = Inr s'"
    by (simp add: step upd r)
  moreover have "swe_bnd s' = swe_bnd s"
    by (simp add: b s1_def)
  moreover have "\<forall>c. c \<noteq> Tide_flux_const \<longrightarrow> constants s' c = constants s c"
    using f by (simp add: s1_def)
  moreover have "constants s' Tide_flux_const =
      Some (- 2000 * sin (2 * pi * fst (last (step # steps)) / 43200) + 1000)"
    using v by (simp add: s1_def step)
  ultimately show ?case by simp
qed

text \<open>
  C2. The forcing state always holds \<open>baseline + amplitude * sin (2 * pi * t / period)\<close> for
  the last observed time \<open>t\<close>, with baseline \<open>1000\<close>, amplitude \<open>-2000\<close> and period \<open>43200\<close>.
  The setup cells create \<^verbatim>\<open>tide_flux_const\<close> with the formula's value at \<open>0\<close>, which is
  what \<open>timedep_flux 0\<close> returns, and the left boundary's flux role reads that value. After
  any run of the solver from there the constant, and the left boundary's flux read through
  \<^verbatim>\<open>swe_bnd\<close>, hold the formula's value at the last time passed to the callback. From
  any state, \<open>update_forcings t_new\<close> leaves in \<^verbatim>\<open>tide_flux_const\<close> the formula's value
  at \<open>t_new\<close>, which is what \<open>timedep_flux t_new\<close> returns.
\<close>

theorem forcing_state_invariant:
  "(\<exists>s0 v0. notebook_setup sol = Inr s0 \<and> timedep_flux 0 = Inr v0
        \<and> v0 = evaluate 1000 (- 2000) 43200 0
        \<and> constants s0 Tide_flux_const = Some v0
        \<and> bnd_value s0 left_bnd_id ''flux'' = Some v0
        \<and> (\<forall>steps. \<exists>s v. run steps s0 = Inr s
              \<and> timedep_flux (last (0 # map fst steps)) = Inr v
              \<and> v = evaluate 1000 (- 2000) 43200 (last (0 # map fst steps))
              \<and> constants s Tide_flux_const = Some v
              \<and> bnd_value s left_bnd_id ''flux'' = Some v))
   \<and> (\<exists>s' v. update_forcings t_new s = Inr s' \<and> timedep_flux t_new = Inr v
        \<and> v = evaluate 1000 (- 2000) 43200 t_new
        \<and> constants s' Tide_flux_const = Some v)"
proof -
  define s0 :: "('a, 'b) state" where "s0 =
    \<lparr>constants = [Right_elev \<mapsto> 0, Right_flux \<mapsto> - 1000, Tide_flux_const \<mapsto> 1000],
     swe_bnd = [right_bnd_id \<mapsto> [''elev'' \<mapsto> Right_elev, ''flux'' \<mapsto> Right_flux],
                left_bnd_id \<mapsto> [''flux'' \<mapsto> Tide_flux_const]],
     solution_2d = sol, plotted = []\<rparr>"
  have ev: "evaluate 1000 (- 2000) 43200 t = - 2000 * sin (2 * pi * t / 43200) + 1000" for t
    by (simp add: evaluate_def)
  have init: "notebook_setup sol = Inr s0"
    by (simp add: notebook_setup_result s0_def)
  have v0: "timedep_flux 0 = Inr 1000"
    by (simp add: timedep_flux_value)
  have e0: "(1000::real) = evaluate 1000 (- 2000) 43200 0"
    by (simp add: evaluate_def)
  have c0: "constants s0 Tide_flux_const = Some 1000"
    by (simp add: s0_def)
  have left: "bnd_value s left_bnd_id ''flux'' = constants s Tide_flux_const"
    if "swe_bnd s = swe_bnd s0" for s :: "('a, 'b) state"
    using that by (simp add: bnd_value_def s0_def)
  have b0: "bnd_value s0 left_bnd_id ''flux'' = Some 1000"
    using left [of s0] c0 by simp
  have runs: "\<exists>s v. run steps s0 = Inr s
              \<and> timedep_flux (last (0 # map fst steps)) = Inr v
              \<and> v = evaluate 1000 (- 2000) 43200 (last (0 # map fst steps))
              \<and> constants s Tide_flux_const = Some v
              \<and> bnd_value s left_bnd_id ''flux'' = Some v" for steps
  proof -
    from run_result [of steps s0] obtain s where
      r: "run steps s0 = Inr s" and b: "swe_bnd s = swe_bnd s0" and
      v: "constants s Tide_flux_const =
            (if steps = [] then constants s0 Tide_flux_const
             else Some (- 2000 * sin (2 * pi * fst (last steps) / 43200) + 1000))"
      by blast
    have "constants s Tide_flux_const =
            Some (- 2000 * sin (2 * pi * last (0 # map fst steps) / 43200) + 1000)"
      using v c0 by (simp add: last_map)
    with r left [OF b] show ?thesis
      by (simp only: timedep_flux_value ev) simp
  qed
  have step: "\<exists>s' v. update_forcings t_new s = Inr s' \<and> timedep_flux t_new = Inr v
        \<and> v = evaluate 1000 (- 2000) 43200 t_new
        \<and> constants s' Tide_flux_const = Some v"
    by (simp add: update_forcings_result timedep_flux_value ev)
  from init v0 e0 c0 b0 runs step show ?thesis
    by blast
qed

text \<open>
  C3. \<open>update_forcings t_new\<close> plots the elevation field once if \<open>t_new\<close> equals one of
  \<open>1000\<close>, \<open>2000\<close>, \<open>4000\<close>, \<open>7000\<close>, and not at all otherwise. In particular it plots
  exactly once at \<open>1000\<close> and never at \<open>999\<close> or at \<open>1000.5\<close>: the comparison is by value,
  with no tolerance.
\<close>

theorem update_forcings_trigger:
  "(\<exists>s'. update_forcings t_new s = Inr s'
        \<and> plotted s' = plotted s @
            (if t_new \<in> {1000, 2000, 4000, 7000} then [snd (solution_2d s)] else []))
   \<and> (\<exists>s'. update_forcings 1000 s = Inr s' \<and> plotted s' = plotted s @ [snd (solution_2d s)])
   \<and> (\<exists>s'. update_forcings 999 s = Inr s' \<and> plotted s' = plotted s)
   \<and> (\<exists>s'. update_forcings (2001 / 2) s = Inr s' \<and> plotted s' = plotted s)"
  by (simp add: update_forcings_result)

text \<open>
  C6. \<open>update_forcings\<close> does not change the boundary dictionary: after a call
  \<^verbatim>\<open>swe_bnd\<close> is the same mapping, and every constant object other than
  \<^verbatim>\<open>tide_flux_const\<close> holds the value it held before. In a state that a run of the
  notebook has reached, the dictionary still has exactly the left and the right boundary
  with their role records, and the right boundary's elevation and flux still read \<open>0\<close> and
  \<open>-1000\<close>.
\<close>

theorem update_forcings_frame:
  assumes "update_forcings t_new s = Inr s'"
  shows "swe_bnd s' = swe_bnd s
       \<and> (\<forall>c. c \<noteq> Tide_flux_const \<longrightarrow> constants s' c = constants s c)
       \<and> (\<forall>sol steps s0. notebook_setup sol = Inr s0 \<and> run steps s0 = Inr s \<longrightarrow>
            dom (swe_bnd s') = {left_bnd_id, right_bnd_id}
          \<and> swe_bnd s' right_bnd_id = Some [''elev'' \<mapsto> Right_elev, ''flux'' \<mapsto> Right_flux]
          \<and> swe_bnd s' left_bnd_id = Some [''flux'' \<mapsto> Tide_flux_const]
          \<and> bnd_value s' right_bnd_id ''elev'' = Some 0
          \<and> bnd_value s' right_bnd_id ''flux'' = Some (- 1000))"
proof -
  have s': "s' = s\<lparr>constants := (constants s)(Tide_flux_const \<mapsto> - 2000 * sin (2 * pi * t_new / 43200) + 1000),
            plotted := plotted s @ (if t_new \<in> {1000, 2000, 4000, 7000} then [snd (solution_2d s)] else [])\<rparr>"
    using assms by (simp add: update_forcings_result)
  have bnd: "swe_bnd s' = swe_bnd s"
    by (simp add: s')
  have frame: "\<forall>c. c \<noteq> Tide_flux_const \<longrightarrow> constants s' c = constants s c"
    by (simp add: s')
  have nb: "dom (swe_bnd s') = {left_bnd_id, right_bnd_id}
          \<and> swe_bnd s' right_bnd_id = Some [''elev'' \<mapsto> Right_elev, ''flux'' \<mapsto> Right_flux]
          \<and> swe_bnd s' left_bnd_id = Some [''flux'' \<mapsto> Tide_flux_const]
          \<and> bnd_value s' right_bnd_id ''elev'' = Some 0
          \<and> bnd_value s' right_bnd_id ''flux'' = Some (- 1000)"
    if init: "notebook_setup sol = Inr s0" and r: "run steps s0 = Inr s"
    for sol steps and s0 :: "('a, 'b) state"
  proof -
    have s0: "s0 = \<lparr>constants = [Right_elev \<mapsto> 0, Right_flux \<mapsto> - 1000, Tide_flux_const \<mapsto> 1000],
          swe_bnd = [right_bnd_id \<mapsto> [''elev'' \<mapsto> Right_elev, ''flux'' \<mapsto> Right_flux],
                     left_bnd_id \<mapsto> [''flux'' \<mapsto> Tide_flux_const]],
          solution_2d = sol, plotted = []\<rparr>"
      using init by (simp add: notebook_setup_result)
    from run_result [of steps s0] r
    have b: "swe_bnd s = swe_bnd s0"
      and f: "\<forall>c. c \<noteq> Tide_flux_const \<longrightarrow> constants s c = constants s0 c"
      by auto
    have b': "swe_bnd s' = [right_bnd_id \<mapsto> [''elev'' \<mapsto> Right_elev, ''flux'' \<mapsto> Right_flux],
                     left_bnd_id \<mapsto> [''flux'' \<mapsto> Tide_flux_const]]"
      using bnd b by (simp add: s0)
    have e: "constants s' Right_elev = Some 0"
      using frame f by (simp add: s0)
    have x: "constants s' Right_flux = Some (- 1000)"
      using frame f by (simp add: s0)
    show ?thesis
      using e x by (auto simp add: b' bnd_value_def left_bnd_id_def right_bnd_id_def)
  qed
  from bnd frame nb show ?thesis
    by blast
qed

theorem update_forcings_frame_witness:
  "\<exists>s0 s s'. notebook_setup (0::nat, 1::nat) = Inr s0
      \<and> run [(50, (2, 3))] s0 = Inr s
      \<and> update_forcings 100 s = Inr s'
      \<and> swe_bnd s' = swe_bnd s
      \<and> constants s' Right_elev = constants s Right_elev
      \<and> dom (swe_bnd s') = {left_bnd_id, right_bnd_id}
      \<and> bnd_value s' right_bnd_id ''elev'' = Some 0
      \<and> bnd_value s' right_bnd_id ''flux'' = Some (- 1000)"
proof -
  obtain s0 :: "(nat, nat) state" where s0: "notebook_setup (0, 1) = Inr s0"
    by (simp add: notebook_setup_result)
  obtain s where s: "run [(50, (2, 3))] s0 = Inr s"
    by (simp add: update_forcings_result)
  obtain s' where s': "update_forcings 100 s = Inr s'"
    by (simp add: update_forcings_result)
  have "constants s' Right_elev = constants s Right_elev"
    using update_forcings_frame [OF s'] by simp
  with update_forcings_frame [OF s'] s0 s s' show ?thesis
    by blast
qed

text \<open>
  C8. For every time \<open>t \<ge> 0\<close> the flux that \<open>timedep_flux t\<close> returns lies between
  \<open>in_flux - \<bar>tide_amp\<bar>\<close> and \<open>in_flux + \<bar>tide_amp\<bar>\<close>, that is in the closed interval from
  \<open>-1000\<close> to \<open>3000\<close>, where \<open>tide_amp = -2000\<close> is the amplitude set inside the function.
\<close>

theorem timedep_flux_bounds:
  assumes "0 \<le> t"
  shows "\<exists>v. timedep_flux t = Inr v
           \<and> in_flux - \<bar>- 2000\<bar> \<le> v \<and> v \<le> in_flux + \<bar>- 2000\<bar>
           \<and> - 1000 \<le> v \<and> v \<le> 3000"
proof -
  have "- 1000 \<le> - 2000 * sin x + 1000 \<and> - 2000 * sin x + 1000 \<le> 3000" for x :: real
    using sin_ge_minus_one [of x] sin_le_one [of x] by linarith
  from this [of "2 * pi * t / 43200"] show ?thesis
    by (simp add: timedep_flux_value in_flux_def)
qed

theorem timedep_flux_bounds_witness:
  "(0::real) \<le> 10800
   \<and> (\<exists>v. timedep_flux 10800 = Inr v
           \<and> in_flux - \<bar>- 2000\<bar> \<le> v \<and> v \<le> in_flux + \<bar>- 2000\<bar>
           \<and> - 1000 \<le> v \<and> v \<le> 3000)"
  using timedep_flux_bounds [of 10800] by simp

text \<open>
  C9. Every trigger instant in \<^verbatim>\<open>plot_time\<close> is a positive whole multiple of the
  time step \<open>50\<close> and is at most the end time \<open>7200\<close>, so with exact steps each trigger
  instant is one of the times \<open>k * timestep\<close> the run passes through.
\<close>

theorem plot_time_on_step_boundaries:
  "\<forall>i \<in> set plot_time.
     i \<le> t_end
     \<and> (\<exists>k::nat. 0 < k \<and> real_of_int i = real k * timestep
                  \<and> real k * timestep \<le> real_of_int t_end)"
proof -
  have "real_of_int 1000 = real 20 * timestep" "real_of_int 2000 = real 40 * timestep"
    "real_of_int 4000 = real 80 * timestep" "real_of_int 7000 = real 140 * timestep"
    by (simp_all add: timestep_def)
  moreover have "real 20 * timestep \<le> real_of_int t_end" "real 40 * timestep \<le> real_of_int t_end"
    "real 80 * timestep \<le> real_of_int t_end" "real 140 * timestep \<le> real_of_int t_end"
    by (simp_all add: timestep_def t_end_def)
  ultimately have "\<exists>k::nat. 0 < k \<and> real_of_int 1000 = real k * timestep \<and> real k * timestep \<le> real_of_int t_end"
    "\<exists>k::nat. 0 < k \<and> real_of_int 2000 = real k * timestep \<and> real k * timestep \<le> real_of_int t_end"
    "\<exists>k::nat. 0 < k \<and> real_of_int 4000 = real k * timestep \<and> real k * timestep \<le> real_of_int t_end"
    "\<exists>k::nat. 0 < k \<and> real_of_int 7000 = real k * timestep \<and> real k * timestep \<le> real_of_int t_end"
    by (metis zero_less_numeral)+
  then show ?thesis
    by (simp add: plot_time_def t_end_def)
qed

theorem plot_time_on_step_boundaries_witness:
  "7000 \<in> set plot_time \<and> 7000 \<le> t_end
   \<and> (\<exists>k::nat. 0 < k \<and> real_of_int 7000 = real k * timestep
                \<and> real k * timestep \<le> real_of_int t_end)"
  using plot_time_on_step_boundaries [THEN bspec, of 7000]
  by (simp add: plot_time_def)

section \<open>The range of doubles and the global variable\<close>

text \<open>
  The second layer in closed form. Within the range of doubles, and with the global at the
  value the notebook gives it, it agrees with the first layer.
\<close>

lemma overflow_threshold_pos: "0 < overflow_threshold"
proof -
  have "(2::real) ^ 970 < 2 ^ 1024"
    by (rule power_strict_increasing) simp_all
  then show ?thesis
    by (simp add: overflow_threshold_def)
qed

lemma timedep_flux_py_value:
  "timedep_flux_py g t =
     (if overflow_threshold \<le> \<bar>2 * pi * t\<bar> then Inl ValueError
      else Inr (- 2000 * sin (2 * pi * t / 43200) + in_flux_var g))"
  by (simp add: timedep_flux_py_def float_mul_def float_div_def float_sin_def)

lemma timedep_flux_py_agrees:
  assumes "\<bar>2 * pi * t\<bar> < overflow_threshold" and "in_flux_var g = in_flux"
  shows "timedep_flux_py g t = timedep_flux t"
  using assms by (simp add: timedep_flux_py_value timedep_flux_value in_flux_def)

lemma update_forcings_py_result:
  "update_forcings_py t g =
     (if overflow_threshold \<le> \<bar>2 * pi * t\<bar> then Inl ValueError
      else Inr (g\<lparr>model := (model g)
             \<lparr>constants := (constants (model g))
                  (Tide_flux_const \<mapsto> - 2000 * sin (2 * pi * t / 43200) + in_flux_var g),
              plotted := plotted (model g) @
                  (if t \<in> {1000, 2000, 4000, 7000} then [snd (solution_2d (model g))] else [])\<rparr>\<rparr>))"
  by (simp add: update_forcings_py_def timedep_flux_py_value assign_def plot_loop_plot_time
      split: prod.split)

lemma notebook_setup_py_result:
  "notebook_setup_py sol =
     Inr \<lparr>in_flux_var = 1000,
          model = \<lparr>constants = [Right_elev \<mapsto> 0, Right_flux \<mapsto> - 1000, Tide_flux_const \<mapsto> 1000],
            swe_bnd = [right_bnd_id \<mapsto> [''elev'' \<mapsto> Right_elev, ''flux'' \<mapsto> Right_flux],
                       left_bnd_id \<mapsto> [''flux'' \<mapsto> Tide_flux_const]],
            solution_2d = sol, plotted = []\<rparr>\<rparr>"
  using overflow_threshold_pos
  by (simp add: notebook_setup_py_def timedep_flux_py_value Constant_def)

text \<open>
  Neither the callback nor a run assigns \<^verbatim>\<open>in_flux\<close>, so every state a run reaches has
  it at \<open>1000\<close>.
\<close>

lemma update_forcings_py_in_flux:
  "update_forcings_py t g = Inr g' \<Longrightarrow> in_flux_var g' = in_flux_var g"
  by (auto simp add: update_forcings_py_result split: if_splits)

lemma run_py_in_flux:
  "run_py steps g = Inr g' \<Longrightarrow> in_flux_var g' = in_flux_var g"
proof (induction steps arbitrary: g)
  case Nil
  then show ?case by simp
next
  case (Cons step steps)
  obtain t_new sol where step: "step = (t_new, sol)"
    by (cases step)
  from Cons.prems obtain g1 where
    u: "update_forcings_py t_new (g\<lparr>model := (model g)\<lparr>solution_2d := sol\<rparr>\<rparr>) = Inr g1" and
    r: "run_py steps g1 = Inr g'"
    by (auto simp add: step split: sum.splits)
  from update_forcings_py_in_flux [OF u] Cons.IH [OF r] show ?case
    by simp
qed

lemma reached_in_flux:
  assumes "notebook_setup_py sol = Inr g0" and "run_py steps g0 = Inr g"
  shows "in_flux_var g = 1000"
proof -
  from assms(1) have "in_flux_var g0 = 1000"
    by (auto simp add: notebook_setup_py_result)
  with run_py_in_flux [OF assms(2)] show ?thesis
    by simp
qed

text \<open>
  Where the product overflows: \<open>2 ^ 1023\<close> is a double, and \<open>2 * pi * 2 ^ 1023\<close> is beyond
  the threshold; times up to \<open>2 ^ 1000\<close> are far within it.
\<close>

lemma overflow_at_2_1023: "overflow_threshold \<le> \<bar>2 * pi * 2 ^ 1023\<bar>"
proof -
  let ?p = "(2::real) ^ 1023"
  have "overflow_threshold \<le> 2 ^ 1024"
    by (simp add: overflow_threshold_def)
  also have "(2::real) ^ 1024 = 2 * ?p"
    by simp
  also have "2 * ?p \<le> 2 * pi * ?p"
  proof -
    have "1 * ?p \<le> pi * ?p"
      by (rule mult_right_mono) (use pi_ge_two in simp_all)
    then show ?thesis
      by (simp del: power_numeral)
  qed
  also have "2 * pi * ?p \<le> \<bar>2 * pi * ?p\<bar>"
    by (rule abs_ge_self)
  finally show ?thesis .
qed

lemma in_double_range:
  assumes "\<bar>t\<bar> \<le> 2 ^ 1000"
  shows "\<not> overflow_threshold \<le> \<bar>2 * pi * t\<bar>"
proof -
  have "\<bar>2 * pi * t\<bar> = 2 * pi * \<bar>t\<bar>"
    by (simp add: abs_mult)
  also have "\<dots> \<le> 2 * 4 * \<bar>t\<bar>"
    by (intro mult_right_mono mult_left_mono) (use pi_less_4 in simp_all)
  also have "\<dots> \<le> 2 * 4 * 2 ^ 1000"
    using assms by (intro mult_left_mono) simp_all
  also have "\<dots> < overflow_threshold"
    by (simp add: overflow_threshold_def)
  finally show ?thesis
    by simp
qed

text \<open>
  C7 as stated does not hold: it says that \<open>timedep_flux t\<close> returns a value for every
  \<open>t \<ge> 0\<close> and that neither function has an error branch. At \<open>t = 2 ^ 1023\<close>, in the state
  the setup cells leave, the product is infinite and both \<^verbatim>\<open>timedep_flux\<close> and
  \<^verbatim>\<open>update_forcings\<close> raise \<^verbatim>\<open>ValueError\<close>.
\<close>

theorem timedep_flux_overflow_counterexample:
  "(0::real) \<le> 2 ^ 1023
   \<and> timedep_flux_py
        \<lparr>in_flux_var = 1000,
         model = \<lparr>constants = [Right_elev \<mapsto> 0, Right_flux \<mapsto> - 1000, Tide_flux_const \<mapsto> 1000],
           swe_bnd = [right_bnd_id \<mapsto> [''elev'' \<mapsto> Right_elev, ''flux'' \<mapsto> Right_flux],
                      left_bnd_id \<mapsto> [''flux'' \<mapsto> Tide_flux_const]],
           solution_2d = (0::nat, 0::nat), plotted = []\<rparr>\<rparr>
        (2 ^ 1023) = Inl ValueError
   \<and> update_forcings_py (2 ^ 1023)
        \<lparr>in_flux_var = 1000,
         model = \<lparr>constants = [Right_elev \<mapsto> 0, Right_flux \<mapsto> - 1000, Tide_flux_const \<mapsto> 1000],
           swe_bnd = [right_bnd_id \<mapsto> [''elev'' \<mapsto> Right_elev, ''flux'' \<mapsto> Right_flux],
                      left_bnd_id \<mapsto> [''flux'' \<mapsto> Tide_flux_const]],
           solution_2d = (0::nat, 0::nat), plotted = []\<rparr>\<rparr> = Inl ValueError"
  using overflow_at_2_1023
  by (simp only: timedep_flux_py_value update_forcings_py_result if_True zero_le_numeral
      zero_le_power simp_thms)

text \<open>
  C7, amended. For every time \<open>t \<ge> 0\<close> whose product \<open>2 * pi * t\<close> stays below the overflow
  threshold \<open>2 ^ 1024 - 2 ^ 970\<close> of doubles, \<open>timedep_flux t\<close> returns a value, the one of
  the real formula, and \<open>update_forcings t\<close> returns, in every state a run of the notebook
  has reached. The division never raises; the one error either function raises, at any
  time, is the \<^verbatim>\<open>ValueError\<close> of an infinite product.
\<close>

theorem returns_within_double_range:
  assumes "0 \<le> t" and "2 * pi * t < overflow_threshold"
    and "notebook_setup_py sol = Inr g0" and "run_py steps g0 = Inr g"
  shows "(\<exists>v. timedep_flux_py g t = Inr v \<and> timedep_flux t = Inr v)
       \<and> (\<exists>g'. update_forcings_py t g = Inr g')
       \<and> (\<forall>t' e. timedep_flux_py g t' = Inl e \<or> update_forcings_py t' g = Inl e
              \<longrightarrow> e = ValueError \<and> overflow_threshold \<le> \<bar>2 * pi * t'\<bar>)"
proof -
  have "0 \<le> 2 * pi * t"
    using assms(1) by simp
  then have range: "\<not> overflow_threshold \<le> \<bar>2 * pi * t\<bar>"
    using assms(2) by simp
  have g: "in_flux_var g = 1000"
    using reached_in_flux [OF assms(3) assms(4)] .
  have "timedep_flux_py g t = timedep_flux t"
    using range g by (simp add: timedep_flux_py_value timedep_flux_value)
  then have a: "\<exists>v. timedep_flux_py g t = Inr v \<and> timedep_flux t = Inr v"
    by (simp add: timedep_flux_value)
  have b: "\<exists>g'. update_forcings_py t g = Inr g'"
    using range by (simp add: update_forcings_py_result)
  have c: "e = ValueError \<and> overflow_threshold \<le> \<bar>2 * pi * t'\<bar>"
    if "timedep_flux_py g t' = Inl e \<or> update_forcings_py t' g = Inl e" for t' e
    using that by (auto simp add: timedep_flux_py_value update_forcings_py_result split: if_splits)
  from a b c show ?thesis
    by blast
qed

theorem returns_within_double_range_witness:
  "\<exists>g0 g. (0::real) \<le> 7200 \<and> 2 * pi * 7200 < overflow_threshold
     \<and> notebook_setup_py (0::nat, 1::nat) = Inr g0
     \<and> run_py [(50, (2, 3))] g0 = Inr g
     \<and> (\<exists>v. timedep_flux_py g 7200 = Inr v \<and> timedep_flux 7200 = Inr v)
     \<and> (\<exists>g'. update_forcings_py 7200 g = Inr g')
     \<and> timedep_flux_py g (2 ^ 1023) = Inl ValueError
     \<and> overflow_threshold \<le> \<bar>2 * pi * 2 ^ 1023\<bar>"
proof -
  have r50: "\<not> overflow_threshold \<le> \<bar>2 * pi * 50\<bar>"
    by (rule in_double_range) simp
  have "\<not> overflow_threshold \<le> \<bar>2 * pi * 7200\<bar>"
    by (rule in_double_range) simp
  then have r7200: "2 * pi * 7200 < overflow_threshold"
    by simp
  obtain g0 :: "(nat, nat) notebook" where g0: "notebook_setup_py (0, 1) = Inr g0"
    by (simp add: notebook_setup_py_result)
  obtain g where g: "run_py [(50, (2, 3))] g0 = Inr g"
    using r50 by (simp add: update_forcings_py_result)
  have big: "timedep_flux_py g (2 ^ 1023) = Inl ValueError"
    using overflow_at_2_1023 by (simp only: timedep_flux_py_value if_True)
  have le: "(0::real) \<le> 7200"
    by simp
  note range = returns_within_double_range [OF le r7200 g0 g]
  from range have a: "\<exists>v. timedep_flux_py g 7200 = Inr v \<and> timedep_flux 7200 = Inr v"
    by blast
  from range have b: "\<exists>g'. update_forcings_py 7200 g = Inr g'"
    by blast
  from range big have c: "overflow_threshold \<le> \<bar>2 * pi * 2 ^ 1023\<bar>"
    by blast
  from le r7200 g0 g a b big c show ?thesis
    by blast
qed

text \<open>
  The global \<^verbatim>\<open>in_flux\<close> is the only part of the state the two functions read for the
  flux: states that agree on it give the same results.
\<close>

lemma flux_reads_in_flux_only:
  assumes "in_flux_var g = in_flux_var g'"
  shows "timedep_flux_py g t = timedep_flux_py g' t
       \<and> tide_flux_after t g = tide_flux_after t g'"
  using assms
  by (simp add: timedep_flux_py_value tide_flux_after_def update_forcings_py_result)



end
